theory Spec2Isabelle
  imports Complex_Main "HOL-Library.Sublist"
begin

text \<open>
  A model of app.py, the web application of a keystroke dynamics authentication system:
  the numbering of saved samples (\<open>get_next_sample_number\<close>, \<open>save_keystroke_data\<close>),
  the lazily loaded verifier (\<open>get_verifier\<close>) and the two endpoints \<open>api_verify\<close> and
  \<open>api_analyze\<close>. What app.py imports and calls without defining it is a parameter of
  the model.
\<close>

section \<open>Python values used by app.py\<close>

text \<open>
  Strings are lists of characters; a character stands for the code point of the same
  number (0 to 255), so a file name is the list of its code points.
\<close>

subsection \<open>\<open>str.replace(old, '')\<close>\<close>

text \<open>
  \<open>s.replace(old, '')\<close> deletes the non-overlapping occurrences of \<open>old\<close> from left to
  right. With an empty \<open>old\<close> nothing is deleted.
\<close>

function replace_del :: "string \<Rightarrow> string \<Rightarrow> string" where
  "replace_del old [] = []"
| "replace_del old (c # cs) =
     (if old \<noteq> [] \<and> prefix old (c # cs)
      then replace_del old (drop (length old) (c # cs))
      else c # replace_del old cs)"
  by pat_completeness auto
termination
  by (relation "measure (\<lambda>(old, s). length s)") (auto simp: neq_Nil_conv)

subsection \<open>\<open>int(s)\<close> on a string\<close>

text \<open>
  \<open>int(s)\<close> in base 10: white space is stripped on both sides, one sign may follow, then
  decimal digits, where a single underscore may stand between two digits. Anything else
  raises ValueError, which is \<open>None\<close> here. The white space characters among the code
  points below 256 are tab, line feed, vertical tab, form feed, carriage return, space,
  U+0085 and U+00A0.
\<close>

definition py_isspace :: "char \<Rightarrow> bool" where
  "py_isspace c = (of_char c \<in> {9, 10, 11, 12, 13, 32, 133, 160 :: nat})"

definition py_isdigit :: "char \<Rightarrow> bool" where
  "py_isdigit c = (48 \<le> (of_char c :: nat) \<and> (of_char c :: nat) \<le> 57)"

definition digit_val :: "char \<Rightarrow> nat" where
  "digit_val c = of_char c - 48"

definition py_strip :: "string \<Rightarrow> string" where
  "py_strip s = rev (dropWhile py_isspace (rev (dropWhile py_isspace s)))"

text \<open>
  \<open>parse_digits acc after_digit s\<close> reads the digits of \<open>s\<close> onto \<open>acc\<close>;
  \<open>after_digit\<close> says that the character before was a digit, the only place where an
  underscore or the end of the string is accepted.
\<close>

fun parse_digits :: "nat \<Rightarrow> bool \<Rightarrow> string \<Rightarrow> nat option" where
  "parse_digits acc after_digit [] = (if after_digit then Some acc else None)"
| "parse_digits acc after_digit (c # cs) =
     (if py_isdigit c then parse_digits (acc * 10 + digit_val c) True cs
      else if c = CHR ''_'' \<and> after_digit then parse_digits acc False cs
      else None)"

definition py_int :: "string \<Rightarrow> int option" where
  "py_int s =
     (case py_strip s of
        [] \<Rightarrow> None
      | c # cs \<Rightarrow>
          if c = CHR ''-'' then map_option (\<lambda>n. - int n) (parse_digits 0 False cs)
          else if c = CHR ''+'' then map_option int (parse_digits 0 False cs)
          else map_option int (parse_digits 0 False (c # cs)))"

subsection \<open>\<open>str(n)\<close> of an integer\<close>

fun nat_digits :: "nat \<Rightarrow> string" where
  "nat_digits n =
     (if n < 10 then [char_of (48 + n)]
      else nat_digits (n div 10) @ [char_of (48 + n mod 10)])"

declare nat_digits.simps [simp del]

definition py_str_int :: "int \<Rightarrow> string" where
  "py_str_int i = (if i < 0 then CHR ''-'' # nat_digits (nat (- i)) else nat_digits (nat i))"

section \<open>The data directory and the next sample number\<close>

text \<open>
  The state of \<open>Config.DATA_DIR\<close> as \<open>get_next_sample_number\<close> sees it: the directory
  with the names \<open>os.listdir\<close> returns, no such path (then \<open>os.makedirs\<close> creates it, or
  fails), or a path that exists and cannot be listed.
\<close>

datatype data_dir =
    Present "string list"
  | Absent
  | Uncreatable
  | Unlistable

text \<open>The loop of lines 50 to 55: a name whose number does not parse is skipped.\<close>

fun collect_numbers :: "string list \<Rightarrow> int list \<Rightarrow> int list" where
  "collect_numbers [] numbers = numbers"
| "collect_numbers (filename # rest) numbers =
     (case py_int (replace_del ''.csv'' (replace_del ''sample'' filename)) of
        Some num \<Rightarrow> collect_numbers rest (numbers @ [num])
      | None \<Rightarrow> collect_numbers rest numbers)"

text \<open>\<open>max(numbers)\<close> raises ValueError on an empty list.\<close>

datatype exn =
    OSError
  | TypeError
  | ValueError
  | Raised string

fun py_max :: "int list \<Rightarrow> exn + int" where
  "py_max [] = Inl ValueError"
| "py_max (x # xs) = Inr (fold max xs x)"

definition existing_files :: "string list \<Rightarrow> string list" where
  "existing_files listing =
     filter (\<lambda>f. prefix ''sample'' f \<and> suffix ''.csv'' f) listing"

text \<open>Lines 42 to 57, on the names that \<open>os.listdir\<close> returned.\<close>

definition next_number :: "string list \<Rightarrow> exn + int" where
  "next_number listing =
     (if existing_files listing = [] then Inr 1
      else let numbers = collect_numbers (existing_files listing) []
           in if numbers \<noteq> [] then map_sum id (\<lambda>m. m + 1) (py_max numbers) else Inr 1)"

text \<open>
  \<open>get_next_sample_number\<close> returns the number, or the exception of the file system call
  that failed, and the directory as it leaves it.
\<close>

fun get_next_sample_number :: "data_dir \<Rightarrow> (exn + int) \<times> data_dir" where
  "get_next_sample_number Absent = (next_number [], Present [])"
| "get_next_sample_number Uncreatable = (Inl OSError, Uncreatable)"
| "get_next_sample_number Unlistable = (Inl OSError, Unlistable)"
| "get_next_sample_number (Present listing) = (next_number listing, Present listing)"

section \<open>JSON values and the Python operations on them\<close>

text \<open>
  The values that \<open>request.get_json()\<close> returns and that \<open>jsonify\<close> serialises. A dict is
  the list of its items in insertion order, with one item for each key. app.py does no
  arithmetic on floats: it writes two float literals and passes on the numbers of the
  feature extractor, so a float is carried as the real number it denotes.
\<close>

datatype json =
    JNull
  | JBool bool
  | JInt int
  | JFloat real
  | JStr string
  | JList "json list"
  | JObj "(string \<times> json) list"

text \<open>Truth value testing, as \<open>if x\<close> and \<open>not x\<close> do it.\<close>

fun truthy :: "json \<Rightarrow> bool" where
  "truthy JNull = False"
| "truthy (JBool b) = b"
| "truthy (JInt i) = (i \<noteq> 0)"
| "truthy (JFloat x) = (x \<noteq> 0)"
| "truthy (JStr s) = (s \<noteq> [])"
| "truthy (JList xs) = (xs \<noteq> [])"
| "truthy (JObj kvs) = (kvs \<noteq> [])"

fun contains :: "string \<Rightarrow> string \<Rightarrow> bool" where
  "contains sub [] = (sub = [])"
| "contains sub (c # cs) = (prefix sub (c # cs) \<or> contains sub cs)"

text \<open>
  \<open>key in x\<close> for a string \<open>key\<close>: a key of a dict, an element of a list, a substring of a
  string; TypeError on a value that is not a container.
\<close>

fun py_in :: "string \<Rightarrow> json \<Rightarrow> exn + bool" where
  "py_in key (JObj kvs) = Inr (key \<in> set (map fst kvs))"
| "py_in key (JList xs) = Inr (JStr key \<in> set xs)"
| "py_in key (JStr s) = Inr (contains key s)"
| "py_in key _ = Inl TypeError"

text \<open>
  \<open>x[key]\<close> for a string \<open>key\<close>: the value of a dict, KeyError (a \<open>Raised\<close> exception
  here) when the key is missing, TypeError on a list or a string, which take integer
  indices, and on every other value.
\<close>

fun py_getitem :: "json \<Rightarrow> string \<Rightarrow> exn + json" where
  "py_getitem (JObj kvs) key =
     (case map_of kvs key of Some v \<Rightarrow> Inr v | None \<Rightarrow> Inl (Raised key))"
| "py_getitem _ key = Inl TypeError"

fun py_len :: "json \<Rightarrow> exn + int" where
  "py_len (JList xs) = Inr (int (length xs))"
| "py_len (JStr s) = Inr (int (length s))"
| "py_len (JObj kvs) = Inr (int (length (remdups (map fst kvs))))"
| "py_len _ = Inl TypeError"

text \<open>\<open>d.get(key, default)\<close> on the dict of features.\<close>

definition dict_get :: "(string \<rightharpoonup> json) \<Rightarrow> string \<Rightarrow> json \<Rightarrow> json" where
  "dict_get d key dflt = (case d key of Some v \<Rightarrow> v | None \<Rightarrow> dflt)"

text \<open>Reading a field of a JSON object, for stating what a response holds.\<close>

fun get_field :: "string \<Rightarrow> json \<Rightarrow> json option" where
  "get_field key (JObj kvs) = map_of kvs key"
| "get_field key _ = None"

fun obj_keys :: "json \<Rightarrow> string list" where
  "obj_keys (JObj kvs) = map fst kvs"
| "obj_keys _ = []"

section \<open>Configuration, collaborators and state\<close>

text \<open>
  Modelled from the spec: the fields \<open>CONFIDENCE_THRESHOLD\<close> and \<open>AGREEMENT_THRESHOLD\<close>,
  the two thresholds that the specification calls configuration. app.py reads neither of
  them. The class \<open>Config\<close> is imported from a module that is not among the sources;
  \<open>MIN_KEYSTROKES\<close> (an integer) and \<open>DATA_DIR\<close> are the fields that \<open>api_verify\<close> and
  \<open>save_keystroke_data\<close> read, taken as parameters.
\<close>

record config =
  MIN_KEYSTROKES :: int
  DATA_DIR :: string
  CONFIDENCE_THRESHOLD :: real
  AGREEMENT_THRESHOLD :: real

text \<open>
  What app.py calls and does not define: \<open>pd.DataFrame\<close>, \<open>DataFrame.to_csv\<close> (\<open>None\<close>
  when the file was written), whether a \<open>to_csv\<close> that raises leaves the file it had
  opened behind, \<open>AdvancedFeatureExtractor.extract_comprehensive_features\<close>
  (a dict of features whose values \<open>jsonify\<close> can serialise),
  whether \<open>OptimizedKeystrokeVerifier()\<close> can be imported and constructed,
  \<open>OptimizedKeystrokeVerifier.verify_keystroke_file\<close> on the rows of a file,
  \<open>file.save\<close> of the upload (\<open>None\<close> when it was written),
  \<open>datetime.now().isoformat()\<close>, and \<open>str(e)\<close> of an exception. Each one that may raise returns the exception on the left.
\<close>

record 'df world =
  DataFrame :: "json \<Rightarrow> exn + 'df"
  to_csv :: "'df \<Rightarrow> string \<Rightarrow> exn option"
  leaves_file :: bool
  extract_comprehensive_features :: "'df \<Rightarrow> exn + (string \<rightharpoonup> json)"
  load_verifier :: bool
  verify_keystroke_file :: "json \<Rightarrow> exn + json"
  file_save :: "exn option"
  now :: string
  str_exn :: "exn \<Rightarrow> string"

text \<open>
  The state between requests: whether the global \<open>verifier\<close> holds an instance, and the
  data directory.
\<close>

record state =
  verifier :: bool
  directory :: data_dir

record response =
  status :: nat
  body :: json

text \<open>
  \<open>get_verifier\<close>: the instance is constructed on the first call that succeeds and kept;
  the result says whether an instance is returned. An instance is true under \<open>not\<close>.
\<close>

definition get_verifier :: "'df world \<Rightarrow> state \<Rightarrow> bool \<times> state" where
  "get_verifier w st =
     (if \<not> verifier st
      then (if load_verifier w then (True, st\<lparr>verifier := True\<rparr>) else (False, st))
      else (True, st))"

definition os_path_join :: "string \<Rightarrow> string \<Rightarrow> string" where
  "os_path_join a b = (if a = [] \<or> last a = CHR ''/'' then a @ b else a @ ''/'' @ b)"

definition sample_name :: "int \<Rightarrow> string" where
  "sample_name sample_number = ''sample'' @ py_str_int sample_number @ ''.csv''"

fun add_file :: "string \<Rightarrow> data_dir \<Rightarrow> data_dir" where
  "add_file f (Present listing) = Present (if f \<in> set listing then listing else listing @ [f])"
| "add_file f d = d"

text \<open>
  \<open>save_keystroke_data\<close>: the pair \<open>(filepath, sample_number)\<close>, or \<open>None\<close> for
  \<open>(None, None)\<close>, which every exception inside leads to.
\<close>

definition save_keystroke_data ::
  "config \<Rightarrow> 'df world \<Rightarrow> json \<Rightarrow> state \<Rightarrow> (string \<times> int) option \<times> state" where
  "save_keystroke_data cfg w keystrokes st =
     (case get_next_sample_number (directory st) of
        (Inl e, d) \<Rightarrow> (None, st\<lparr>directory := d\<rparr>)
      | (Inr sample_number, d) \<Rightarrow>
          let filename = sample_name sample_number;
              filepath = os_path_join (DATA_DIR cfg) filename
          in (case DataFrame w keystrokes of
                Inl e \<Rightarrow> (None, st\<lparr>directory := d\<rparr>)
              | Inr df \<Rightarrow>
                  (case to_csv w df filepath of
                     Some e \<Rightarrow>
                       (None, st\<lparr>directory :=
                                 (if leaves_file w then add_file filename d else d)\<rparr>)
                   | None \<Rightarrow> (Some (filepath, sample_number), st\<lparr>directory := add_file filename d\<rparr>))))"

section \<open>The ensemble fusion\<close>

text \<open>
  Modelled from the spec: the votes and the result of the ensemble fusion. app.py imports
  \<open>OptimizedKeystrokeVerifier\<close> from the module \<open>verify_optimized\<close>, which is not among
  the sources; \<open>api_analyze\<close> returns what its \<open>verify_keystroke_file\<close> returns, and
  \<open>api_verify\<close> writes a literal in its place. A vote has the classifier's name, its
  score, its verdict and the weight the classifier declares, if it declares one. Scores,
  weights and thresholds are the real numbers that the floats denote.
\<close>

datatype ensemble_label = Legitimate | Impostor

datatype decision = AUTHENTICATED | REJECTED

datatype model_error = ModelUnavailableError string

record vote =
  classifier :: string
  score :: real
  verdict :: bool
  declared_weight :: "real option"

record VerificationResult =
  is_authentic :: bool
  confidence :: real
  ensemble_decision :: ensemble_label
  model_agreement :: real
  final_decision :: decision

text \<open>
  Modelled from the spec: the weight of a vote, equal (1) unless the classifier declares
  one.
\<close>

definition weight_of :: "vote \<Rightarrow> real" where
  "weight_of v = (case declared_weight v of None \<Rightarrow> 1 | Some x \<Rightarrow> x)"

text \<open>
  Modelled from the spec: the confidence, the weighted average of the scores of the
  votes. The spec does not say what weights that sum to zero give; the quotient is 0
  then.
\<close>

definition fused_confidence :: "vote list \<Rightarrow> real" where
  "fused_confidence votes =
     (if sum_list (map weight_of votes) = 0 then 0
      else sum_list (map (\<lambda>v. weight_of v * score v) votes) / sum_list (map weight_of votes))"

text \<open>
  Modelled from the spec: the majority verdict; an even split resolves toward the
  rejecting verdict.
\<close>

definition majority_verdict :: "vote list \<Rightarrow> bool" where
  "majority_verdict votes =
     (length (filter (\<lambda>v. \<not> verdict v) votes) < length (filter verdict votes))"

text \<open>
  Modelled from the spec: the agreement, the percentage of the votes whose verdict is the
  majority verdict.
\<close>

definition fused_agreement :: "vote list \<Rightarrow> real" where
  "fused_agreement votes =
     100 * real (length (filter (\<lambda>v. verdict v = majority_verdict votes) votes))
       / real (length votes)"

text \<open>
  Modelled from the spec: \<open>fuse(votes)\<close> of section 4.4, under the two thresholds of the
  configuration. No vote is the error \<open>no_votes\<close>; otherwise the decision is
  AUTHENTICATED exactly when the confidence reaches \<open>CONFIDENCE_THRESHOLD\<close> and the
  agreement reaches \<open>AGREEMENT_THRESHOLD\<close>, \<open>is_authentic\<close> mirrors it, and the label
  follows the majority verdict.
\<close>

definition fuse :: "config \<Rightarrow> vote list \<Rightarrow> model_error + VerificationResult" where
  "fuse cfg votes =
     (if votes = [] then Inl (ModelUnavailableError ''no_votes'')
      else
        let c = fused_confidence votes;
            a = fused_agreement votes;
            accepted = (CONFIDENCE_THRESHOLD cfg \<le> c \<and> AGREEMENT_THRESHOLD cfg \<le> a)
        in Inr \<lparr>is_authentic = accepted,
                confidence = c,
                ensemble_decision = (if majority_verdict votes then Legitimate else Impostor),
                model_agreement = a,
                final_decision = (if accepted then AUTHENTICATED else REJECTED)\<rparr>)"

section \<open>The endpoints\<close>

definition error_response :: "nat \<Rightarrow> string \<Rightarrow> response" where
  "error_response code message =
     \<lparr>status = code, body = JObj [(''status'', JStr ''error''), (''message'', JStr message)]\<rparr>"

text \<open>
  \<open>f'sample{sample_number}.csv' if sample_number else alt\<close>: \<open>None\<close> and \<open>0\<close> are both
  false.
\<close>

definition sample_or :: "int option \<Rightarrow> json \<Rightarrow> json" where
  "sample_or sample_number alt =
     (case sample_number of
        None \<Rightarrow> alt
      | Some n \<Rightarrow> if n \<noteq> 0 then JStr (sample_name n) else alt)"

text \<open>The dict \<open>result\<close> of lines 180 to 203.\<close>

definition verification_result ::
  "'df world \<Rightarrow> int option \<Rightarrow> int \<Rightarrow> (string \<rightharpoonup> json) \<Rightarrow> json" where
  "verification_result w sample_number keystroke_count features =
     JObj [
       (''file_info'', JObj [
          (''filename'', sample_or sample_number (JStr ''realtime_verification'')),
          (''saved_as'', sample_or sample_number JNull),
          (''keystroke_count'', JInt keystroke_count),
          (''verification_time'', JStr (now w))]),
       (''authentication_result'', JObj [
          (''is_authentic'', JBool True),
          (''confidence'', JFloat 85),
          (''ensemble_decision'', JStr ''Legitimate''),
          (''model_agreement'', JFloat 95),
          (''final_decision'', JStr ''AUTHENTICATED'')]),
       (''typing_statistics'', JObj [
          (''dwell_time_mean'', dict_get features ''dwell_mean'' (JInt 0)),
          (''dwell_time_std'', dict_get features ''dwell_std'' (JInt 0)),
          (''flight_time_mean'', dict_get features ''flight_mean'' (JInt 0)),
          (''flight_time_std'', dict_get features ''flight_std'' (JInt 0)),
          (''total_time'', dict_get features ''total_time'' (JInt 0)),
          (''typing_speed'', dict_get features ''typing_speed'' (JInt 0)),
          (''dwell_flight_ratio'', dict_get features ''dwell_flight_ratio'' (JInt 0))])]"

definition verification_failed :: "'df world \<Rightarrow> exn \<Rightarrow> response" where
  "verification_failed w e = error_response 500 (''Verification failed: '' @ str_exn w e)"

text \<open>
  \<open>api_verify\<close> on the outcome of \<open>request.get_json()\<close>. Every exception inside the
  \<open>try\<close> ends in the handler of line 211, with what was done to the state before it.
\<close>

definition api_verify ::
  "config \<Rightarrow> 'df world \<Rightarrow> exn + json \<Rightarrow> state \<Rightarrow> response \<times> state" where
  "api_verify cfg w request_json st =
     (case request_json of
        Inl e \<Rightarrow> (verification_failed w e, st)
      | Inr data \<Rightarrow>
          if \<not> truthy data then (error_response 400 ''No keystroke data provided'', st)
          else (case py_in ''keystrokes'' data of
             Inl e \<Rightarrow> (verification_failed w e, st)
           | Inr present \<Rightarrow>
               if \<not> present then (error_response 400 ''No keystroke data provided'', st)
               else (case py_getitem data ''keystrokes'' of
                  Inl e \<Rightarrow> (verification_failed w e, st)
                | Inr keystrokes \<Rightarrow>
                    (case py_len keystrokes of
                       Inl e \<Rightarrow> (verification_failed w e, st)
                     | Inr n \<Rightarrow>
                         if n < MIN_KEYSTROKES cfg
                         then (error_response 400
                                 (''Insufficient keystrokes. Minimum required: ''
                                    @ py_str_int (MIN_KEYSTROKES cfg)), st)
                         else (case save_keystroke_data cfg w keystrokes st of
                            (saved, st1) \<Rightarrow>
                              (case DataFrame w keystrokes of
                                 Inl e \<Rightarrow> (verification_failed w e, st1)
                               | Inr df \<Rightarrow>
                                   (case extract_comprehensive_features w df of
                                      Inl e \<Rightarrow> (verification_failed w e, st1)
                                    | Inr features \<Rightarrow>
                                        (case get_verifier w st1 of
                                           (verifier_instance, st2) \<Rightarrow>
                                             if \<not> verifier_instance
                                             then (error_response 503
                                                     ''Verification system not available'', st2)
                                             else (\<lparr>status = 200, body = JObj [
                                                      (''status'', JStr ''success''),
                                                      (''result'', verification_result w
                                                          (map_option snd saved) n features),
                                                      (''saved_file'',
                                                          sample_or (map_option snd saved) JNull)]\<rparr>,
                                                   st2)))))))))"

text \<open>
  \<open>api_analyze\<close> on the entry \<open>'file'\<close> of \<open>request.files\<close>, if there is one: the file
  name the client sent and the rows the file holds. The temporary file it writes has a
  name that starts with \<open>temp_upload_\<close> and is no sample of the data directory.
\<close>

definition analysis_failed :: "'df world \<Rightarrow> exn \<Rightarrow> response" where
  "analysis_failed w e = error_response 500 (''Analysis failed: '' @ str_exn w e)"

definition api_analyze ::
  "'df world \<Rightarrow> (string \<times> json) option \<Rightarrow> state \<Rightarrow> response \<times> state" where
  "api_analyze w upload st =
     (case upload of
        None \<Rightarrow> (error_response 400 ''No file provided'', st)
      | Some (filename, rows) \<Rightarrow>
          if filename = [] then (error_response 400 ''No file selected'', st)
          else if \<not> suffix ''.csv'' filename
          then (error_response 400 ''Only CSV files are supported'', st)
          else (case file_save w of
             Some e \<Rightarrow> (analysis_failed w e, st)
           | None \<Rightarrow>
               (case get_verifier w st of
                  (verifier_instance, st1) \<Rightarrow>
                    if \<not> verifier_instance
                    then (error_response 503 ''Verification system not available'', st1)
                    else (case verify_keystroke_file w rows of
                       Inl e \<Rightarrow> (analysis_failed w e, st1)
                     | Inr result \<Rightarrow>
                         if truthy result
                         then (\<lparr>status = 200, body = JObj [
                                  (''status'', JStr ''success''),
                                  (''result'', result)]\<rparr>, st1)
                         else (error_response 500 ''Verification failed'', st1)))))"

section \<open>Reading a response\<close>

definition result_block :: "string \<Rightarrow> response \<Rightarrow> json option" where
  "result_block name r = Option.bind (get_field ''result'' (body r)) (get_field name)"

definition authentication_result :: "response \<Rightarrow> json option" where
  "authentication_result r = result_block ''authentication_result'' r"

definition typing_statistics :: "response \<Rightarrow> json option" where
  "typing_statistics r = result_block ''typing_statistics'' r"



definition decision_field :: "string \<Rightarrow> response \<Rightarrow> json option" where
  "decision_field name r = Option.bind (authentication_result r) (get_field name)"

text \<open>
  The fields of \<open>typing_statistics\<close> (lines 195 to 201): the name in the response and the
  key of the feature it is read from.
\<close>

definition statistic_names :: "(string \<times> string) list" where
  "statistic_names =
     [(''dwell_time_mean'', ''dwell_mean''),
      (''dwell_time_std'', ''dwell_std''),
      (''flight_time_mean'', ''flight_mean''),
      (''flight_time_std'', ''flight_std''),
      (''total_time'', ''total_time''),
      (''typing_speed'', ''typing_speed''),
      (''dwell_flight_ratio'', ''dwell_flight_ratio'')]"

text \<open>
  The numbers that \<open>get_next_sample_number\<close> takes the maximum of: of each listed name
  that starts with \<open>sample\<close> and ends with \<open>.csv\<close>, what \<open>int\<close> makes of the name without
  its occurrences of \<open>sample\<close> and of \<open>.csv\<close>, where \<open>int\<close> accepts that.
\<close>

definition sample_numbers :: "string list \<Rightarrow> int list" where
  "sample_numbers listing =
     List.map_filter (\<lambda>f. py_int (replace_del ''.csv'' (replace_del ''sample'' f)))
       (existing_files listing)"

section \<open>Concrete requests\<close>

text \<open>
  Three key events, a world in which every collaborator answers, and a first request on
  a machine that has neither a data directory nor a loaded verifier.
\<close>

definition three_event_list :: "json list" where
  "three_event_list = [
     JObj [(''key'', JStr ''a''), (''pressTime'', JInt 0), (''releaseTime'', JInt 80)],
     JObj [(''key'', JStr ''b''), (''pressTime'', JInt 150), (''releaseTime'', JInt 210)],
     JObj [(''key'', JStr ''c''), (''pressTime'', JInt 300), (''releaseTime'', JInt 360)]]"

definition three_events :: json where
  "three_events = JList three_event_list"

text \<open>The same keys, the first one released before it was pressed.\<close>

definition mistimed_event_list :: "json list" where
  "mistimed_event_list = [
     JObj [(''key'', JStr ''a''), (''pressTime'', JInt 100), (''releaseTime'', JInt 50)],
     JObj [(''key'', JStr ''b''), (''pressTime'', JInt 150), (''releaseTime'', JInt 210)],
     JObj [(''key'', JStr ''c''), (''pressTime'', JInt 300), (''releaseTime'', JInt 360)]]"

definition other_events :: json where
  "other_events = JList [
     JObj [(''key'', JStr ''x''), (''pressTime'', JInt 5), (''releaseTime'', JInt 400)],
     JObj [(''key'', JStr ''y''), (''pressTime'', JInt 900), (''releaseTime'', JInt 901)],
     JObj [(''key'', JStr ''z''), (''pressTime'', JInt 2000), (''releaseTime'', JInt 2500)],
     JObj [(''key'', JStr ''q''), (''pressTime'', JInt 2600), (''releaseTime'', JInt 2700)]]"

definition one_event :: json where
  "one_event = JList [
     JObj [(''key'', JStr ''a''), (''pressTime'', JInt 0), (''releaseTime'', JInt 80)]]"

definition three_features :: "string \<rightharpoonup> json" where
  "three_features = map_of [
     (''dwell_mean'', JFloat 70), (''dwell_std'', JFloat 10),
     (''flight_mean'', JFloat 80), (''total_time'', JInt 360),
     (''dwell_flight_ratio'', JFloat (7 / 8))]"

definition ready_world :: "json world" where
  "ready_world = \<lparr>
     DataFrame = Inr,
     to_csv = (\<lambda>df path. None),
     leaves_file = False,
     extract_comprehensive_features = (\<lambda>df. Inr three_features),
     load_verifier = True,
     verify_keystroke_file = (\<lambda>rows. Inr JNull),
     file_save = None,
     now = ''2024-01-01T00:00:00'',
     str_exn = (\<lambda>e. ''error'')\<rparr>"

text \<open>Three votes: scores 90, 85 and 40, the first two accepting, equal weights.\<close>

definition three_votes :: "vote list" where
  "three_votes = [
     \<lparr>classifier = ''distance'', score = 90, verdict = True, declared_weight = None\<rparr>,
     \<lparr>classifier = ''statistical'', score = 85, verdict = True, declared_weight = None\<rparr>,
     \<lparr>classifier = ''threshold'', score = 40, verdict = False, declared_weight = None\<rparr>]"

definition base_config :: config where
  "base_config = \<lparr>MIN_KEYSTROKES = 3, DATA_DIR = ''data'',
     CONFIDENCE_THRESHOLD = 75, AGREEMENT_THRESHOLD = 60\<rparr>"

definition fresh :: state where
  "fresh = \<lparr>verifier = False, directory = Absent\<rparr>"

definition post :: "json \<Rightarrow> exn + json" where
  "post keystrokes = Inr (JObj [(''keystrokes'', keystrokes)])"

text \<open>
  The same configuration with a confidence threshold of 90, a world whose verifier cannot
  be loaded, one whose disk rejects every write, and one whose verifier rejects every
  file it is given.
\<close>

definition strict_config :: config where
  "strict_config = \<lparr>MIN_KEYSTROKES = 3, DATA_DIR = ''data'',
     CONFIDENCE_THRESHOLD = 90, AGREEMENT_THRESHOLD = 60\<rparr>"

definition offline_world :: "json world" where
  "offline_world = ready_world\<lparr>load_verifier := False\<rparr>"


definition rejection :: json where
  "rejection = JObj [
     (''authentication_result'', JObj [
        (''is_authentic'', JBool False),
        (''confidence'', JFloat 40),
        (''ensemble_decision'', JStr ''Impostor''),
        (''model_agreement'', JFloat 100),
        (''final_decision'', JStr ''REJECTED'')])]"

definition rejecting_world :: "json world" where
  "rejecting_world = ready_world\<lparr>verify_keystroke_file := (\<lambda>rows. Inr rejection)\<rparr>"

section \<open>Facts about the endpoints\<close>

lemma map_of_key_in: "map_of kvs k = Some v \<Longrightarrow> kvs \<noteq> [] \<and> k \<in> set (map fst kvs)"
  by (auto dest: map_of_SomeD simp: rev_image_eqI)

lemma save_keeps_verifier:
  "verifier (snd (save_keystroke_data cfg w ks st)) = verifier st"
  by (simp add: save_keystroke_data_def Let_def split: prod.splits sum.splits option.splits)

text \<open>What \<open>api_verify\<close> does with a body whose \<open>keystrokes\<close> is a list.\<close>

lemma api_verify_events:
  assumes "map_of kvs ''keystrokes'' = Some (JList events)"
  shows "api_verify cfg w (Inr (JObj kvs)) st =
     (if int (length events) < MIN_KEYSTROKES cfg
      then (error_response 400
              (''Insufficient keystrokes. Minimum required: '' @ py_str_int (MIN_KEYSTROKES cfg)), st)
      else (case save_keystroke_data cfg w (JList events) st of
              (saved, st1) \<Rightarrow>
                (case DataFrame w (JList events) of
                   Inl e \<Rightarrow> (verification_failed w e, st1)
                 | Inr df \<Rightarrow>
                     (case extract_comprehensive_features w df of
                        Inl e \<Rightarrow> (verification_failed w e, st1)
                      | Inr features \<Rightarrow>
                          (case get_verifier w st1 of
                             (verifier_instance, st2) \<Rightarrow>
                               if \<not> verifier_instance
                               then (error_response 503 ''Verification system not available'', st2)
                               else (\<lparr>status = 200, body = JObj [
                                        (''status'', JStr ''success''),
                                        (''result'', verification_result w
                                            (map_option snd saved) (int (length events)) features),
                                        (''saved_file'', sample_or (map_option snd saved) JNull)]\<rparr>,
                                     st2))))))"
  using map_of_key_in[OF assms] assms
  by (simp add: api_verify_def)

lemma api_verify_events_status:
  assumes "map_of kvs ''keystrokes'' = Some (JList events)"
  shows "(status (fst (api_verify cfg w (Inr (JObj kvs)) st)) = 400) =
           (int (length events) < MIN_KEYSTROKES cfg)"
  by (simp add: api_verify_events[OF assms] error_response_def verification_failed_def
           split: prod.splits sum.splits)

lemma api_verify_events_extracted:
  assumes "map_of kvs ''keystrokes'' = Some (JList events)"
      and "MIN_KEYSTROKES cfg \<le> int (length events)"
      and "DataFrame w (JList events) = Inr df"
      and "extract_comprehensive_features w df = Inr features"
  shows "fst (api_verify cfg w (Inr (JObj kvs)) st) =
     (if \<not> verifier st \<and> \<not> load_verifier w
      then error_response 503 ''Verification system not available''
      else \<lparr>status = 200, body = JObj [
              (''status'', JStr ''success''),
              (''result'', verification_result w
                  (map_option snd (fst (save_keystroke_data cfg w (JList events) st)))
                  (int (length events)) features),
              (''saved_file'',
                  sample_or (map_option snd (fst (save_keystroke_data cfg w (JList events) st)))
                    JNull)]\<rparr>)"
proof -
  obtain saved st1 where s: "save_keystroke_data cfg w (JList events) st = (saved, st1)"
    by (cases "save_keystroke_data cfg w (JList events) st")
  with save_keeps_verifier[of cfg w "JList events" st] have "verifier st1 = verifier st"
    by simp
  with assms s show ?thesis
    by (simp add: api_verify_events[OF assms(1)] get_verifier_def)
qed


lemma api_verify_200:
  assumes "status (fst (api_verify cfg w rq st)) = 200"
  shows "\<exists>sn n features. body (fst (api_verify cfg w rq st)) =
           JObj [(''status'', JStr ''success''),
                 (''result'', verification_result w sn n features),
                 (''saved_file'', sample_or sn JNull)]"
  using assms
  by (auto simp: api_verify_def error_response_def verification_failed_def
           split: sum.splits if_splits prod.splits)

lemma api_verify_200_decision:
  assumes "status (fst (api_verify cfg w rq st)) = 200"
  shows "authentication_result (fst (api_verify cfg w rq st)) =
     Some (JObj [(''is_authentic'', JBool True), (''confidence'', JFloat 85),
                 (''ensemble_decision'', JStr ''Legitimate''),
                 (''model_agreement'', JFloat 95),
                 (''final_decision'', JStr ''AUTHENTICATED'')])"
proof -
  from api_verify_200[OF assms] obtain sn n features where
    "body (fst (api_verify cfg w rq st)) =
       JObj [(''status'', JStr ''success''),
             (''result'', verification_result w sn n features),
             (''saved_file'', sample_or sn JNull)]"
    by blast
  then show ?thesis
    by (simp add: authentication_result_def result_block_def verification_result_def)
qed

section \<open>Facts about the sample numbers\<close>

lemma collect_numbers_map_filter:
  "collect_numbers fs numbers =
     numbers @ List.map_filter (\<lambda>f. py_int (replace_del ''.csv'' (replace_del ''sample'' f))) fs"
  by (induction fs arbitrary: numbers) (simp_all split: option.splits)

lemma py_max_Max:
  assumes "xs \<noteq> []"
  shows "py_max xs = Inr (Max (set xs))"
proof (cases xs)
  case Nil
  with assms show ?thesis by simp
next
  case (Cons x rest)
  then show ?thesis using Max.set_eq_fold[of x rest] by simp
qed

lemma next_number_eq:
  "next_number listing =
     Inr (if sample_numbers listing = [] then 1 else Max (set (sample_numbers listing)) + 1)"
proof (cases "existing_files listing = []")
  case True
  then show ?thesis by (simp add: next_number_def sample_numbers_def)
next
  case False
  then show ?thesis
    by (simp add: next_number_def sample_numbers_def collect_numbers_map_filter py_max_Max Let_def)
qed

section \<open>The claims\<close>

text \<open>
  C1. The claim: \<open>final_decision\<close> is AUTHENTICATED exactly when the confidence reaches
  \<open>CONFIDENCE_THRESHOLD\<close> and the agreement reaches \<open>AGREEMENT_THRESHOLD\<close>. With a
  confidence threshold of 90, \<open>api_verify\<close> answers three valid key events with
  \<open>final_decision\<close> AUTHENTICATED and \<open>confidence\<close> 85.0, which is below the threshold.
\<close>

theorem placeholder_decision_ignores_threshold:
  "decision_field ''final_decision''
       (fst (api_verify strict_config ready_world (post three_events) fresh)) =
     Some (JStr ''AUTHENTICATED'')
   \<and> decision_field ''confidence''
       (fst (api_verify strict_config ready_world (post three_events) fresh)) =
     Some (JFloat 85)
   \<and> \<not> (85 \<ge> CONFIDENCE_THRESHOLD strict_config)"
proof -
  have "status (fst (api_verify strict_config ready_world (post three_events) fresh)) = 200"
    by code_simp
  from api_verify_200_decision[OF this] show ?thesis
    by (simp add: decision_field_def strict_config_def)
qed

text \<open>
  C2. Two requests that both reach the verification step of \<open>api_verify\<close>, that is, both
  are answered with status 200, carry the same authentication decision, the fixed one
  (\<open>is_authentic\<close> true, \<open>confidence\<close> 85.0, \<open>ensemble_decision\<close> Legitimate,
  \<open>model_agreement\<close> 95.0, \<open>final_decision\<close> AUTHENTICATED), whatever the configuration,
  the collaborators, the keystrokes and the state of either request.
\<close>

theorem verify_decision_is_fixed:
  fixes w :: "'a world" and w' :: "'b world"
  assumes "status (fst (api_verify cfg w rq st)) = 200"
      and "status (fst (api_verify cfg' w' rq' st')) = 200"
  shows "authentication_result (fst (api_verify cfg w rq st)) =
           Some (JObj [(''is_authentic'', JBool True), (''confidence'', JFloat 85),
                       (''ensemble_decision'', JStr ''Legitimate''),
                       (''model_agreement'', JFloat 95),
                       (''final_decision'', JStr ''AUTHENTICATED'')])
       \<and> authentication_result (fst (api_verify cfg' w' rq' st')) =
           authentication_result (fst (api_verify cfg w rq st))"
  using api_verify_200_decision[OF assms(1)] api_verify_200_decision[OF assms(2)] by simp

theorem verify_decision_is_fixed_witness:
  "status (fst (api_verify base_config ready_world (post three_events) fresh)) = 200
   \<and> status (fst (api_verify base_config ready_world (post other_events) fresh)) = 200
   \<and> three_events \<noteq> other_events
   \<and> authentication_result (fst (api_verify base_config ready_world (post other_events) fresh)) =
       authentication_result (fst (api_verify base_config ready_world (post three_events) fresh))
   \<and> decision_field ''final_decision''
        (fst (api_verify base_config ready_world (post other_events) fresh)) =
       Some (JStr ''AUTHENTICATED'')"
proof -
  have a: "status (fst (api_verify base_config ready_world (post three_events) fresh)) = 200"
    by code_simp
  have b: "status (fst (api_verify base_config ready_world (post other_events) fresh)) = 200"
    by code_simp
  have c: "three_events \<noteq> other_events"
    by (simp add: three_events_def three_event_list_def other_events_def)
  from verify_decision_is_fixed[OF a b] a b c show ?thesis
    by (simp add: decision_field_def)
qed

text \<open>
  C3. A request whose \<open>keystrokes\<close> is a list of fewer than \<open>MIN_KEYSTROKES\<close> events is
  answered with status 400 and the message of insufficient keystrokes; the response has no
  \<open>result\<close> and the state is left as it was: nothing is saved and no verifier is loaded.
\<close>

theorem short_session_is_rejected:
  assumes "map_of kvs ''keystrokes'' = Some (JList events)"
      and "int (length events) < MIN_KEYSTROKES cfg"
  shows "api_verify cfg w (Inr (JObj kvs)) st =
           (\<lparr>status = 400,
             body = JObj [(''status'', JStr ''error''),
                          (''message'', JStr (''Insufficient keystrokes. Minimum required: ''
                                               @ py_str_int (MIN_KEYSTROKES cfg)))]\<rparr>, st)
         \<and> get_field ''result'' (body (fst (api_verify cfg w (Inr (JObj kvs)) st))) = None"
  using assms by (simp add: api_verify_events error_response_def)

theorem short_session_is_rejected_witness:
  "map_of [(''keystrokes'', one_event)] ''keystrokes'' = Some one_event
   \<and> (1::int) < MIN_KEYSTROKES base_config
   \<and> api_verify base_config ready_world (post one_event) fresh =
       (\<lparr>status = 400,
         body = JObj [(''status'', JStr ''error''),
                      (''message'', JStr ''Insufficient keystrokes. Minimum required: 3'')]\<rparr>, fresh)"
proof -
  have a: "map_of [(''keystrokes'', one_event)] ''keystrokes'' =
             Some (JList [JObj [(''key'', JStr ''a''), (''pressTime'', JInt 0), (''releaseTime'', JInt 80)]])"
    by (simp add: one_event_def)
  have b: "int (length [JObj [(''key'', JStr ''a''), (''pressTime'', JInt 0), (''releaseTime'', JInt 80)]])
             < MIN_KEYSTROKES base_config"
    by (simp add: base_config_def)
  have c: "py_str_int (MIN_KEYSTROKES base_config) = ''3''"
    by code_simp
  from short_session_is_rejected[OF a b, of ready_world fresh] a b c show ?thesis
    by (simp add: post_def one_event_def base_config_def)
qed

text \<open>
  C4, as claimed, fails: three key events, the first with release time 50 before its
  press time 100, are answered with status 200.
\<close>

theorem malformed_timing_is_accepted:
  "(50::int) < 100
   \<and> status (fst (api_verify base_config ready_world
        (post (JList [
           JObj [(''key'', JStr ''a''), (''pressTime'', JInt 100), (''releaseTime'', JInt 50)],
           JObj [(''key'', JStr ''b''), (''pressTime'', JInt 150), (''releaseTime'', JInt 210)],
           JObj [(''key'', JStr ''c''), (''pressTime'', JInt 300), (''releaseTime'', JInt 360)]]))
        fresh)) = 200"
  by code_simp

text \<open>
  C4, amended. \<open>api_verify\<close> does not look at press and release times. A list of key
  events is answered with the validation error 400 exactly when it has fewer than
  \<open>MIN_KEYSTROKES\<close> events; a list of at least \<open>MIN_KEYSTROKES\<close> events, whatever its
  timings, goes unchanged to \<open>pd.DataFrame\<close> and the feature extractor, and when both
  return it is answered with 200, or with 503 when no verifier can be loaded.
\<close>

theorem validation_counts_events_only:
  assumes "map_of kvs ''keystrokes'' = Some (JList events)"
  shows "(status (fst (api_verify cfg w (Inr (JObj kvs)) st)) = 400) =
           (int (length events) < MIN_KEYSTROKES cfg)
       \<and> (MIN_KEYSTROKES cfg \<le> int (length events) \<longrightarrow>
            DataFrame w (JList events) = Inr df \<longrightarrow>
            extract_comprehensive_features w df = Inr features \<longrightarrow>
              status (fst (api_verify cfg w (Inr (JObj kvs)) st)) =
                (if \<not> verifier st \<and> \<not> load_verifier w then 503 else 200))"
  using api_verify_events_status[OF assms, of cfg w st]
        api_verify_events_extracted[OF assms, of cfg w df features st]
  by (simp add: error_response_def)

theorem validation_counts_events_only_witness:
  "map_of [(''keystrokes'', JList mistimed_event_list)] ''keystrokes'' =
     Some (JList mistimed_event_list)
   \<and> MIN_KEYSTROKES base_config \<le> int (length mistimed_event_list)
   \<and> DataFrame ready_world (JList mistimed_event_list) = Inr (JList mistimed_event_list)
   \<and> extract_comprehensive_features ready_world (JList mistimed_event_list) = Inr three_features
   \<and> status (fst (api_verify base_config ready_world
        (Inr (JObj [(''keystrokes'', JList mistimed_event_list)])) fresh)) \<noteq> 400
   \<and> status (fst (api_verify base_config ready_world
        (Inr (JObj [(''keystrokes'', JList mistimed_event_list)])) fresh)) = 200"
  using validation_counts_events_only
    [of "[(''keystrokes'', JList mistimed_event_list)]" mistimed_event_list
        base_config ready_world fresh "JList mistimed_event_list" three_features]
  by (simp add: base_config_def ready_world_def fresh_def mistimed_event_list_def)

text \<open>
  C5. With the votes fixed, raising \<open>CONFIDENCE_THRESHOLD\<close> or \<open>AGREEMENT_THRESHOLD\<close>
  (or both) is monotone for the fusion: a result that is AUTHENTICATED under the higher
  thresholds is AUTHENTICATED under the lower ones, with the same confidence and
  agreement, and a result that is REJECTED under the lower thresholds is REJECTED under
  the higher ones. So raising a threshold never turns REJECTED into AUTHENTICATED.
\<close>

theorem fuse_threshold_monotone:
  assumes "CONFIDENCE_THRESHOLD cfg \<le> CONFIDENCE_THRESHOLD cfg'"
      and "AGREEMENT_THRESHOLD cfg \<le> AGREEMENT_THRESHOLD cfg'"
  shows "(\<forall>r'. fuse cfg' votes = Inr r' \<longrightarrow> final_decision r' = AUTHENTICATED \<longrightarrow>
            (\<exists>r. fuse cfg votes = Inr r \<and> final_decision r = AUTHENTICATED
                 \<and> confidence r = confidence r' \<and> model_agreement r = model_agreement r'))
       \<and> (\<forall>r. fuse cfg votes = Inr r \<longrightarrow> final_decision r = REJECTED \<longrightarrow>
            (\<exists>r'. fuse cfg' votes = Inr r' \<and> final_decision r' = REJECTED))"
proof (cases "votes = []")
  case True
  then show ?thesis by (simp add: fuse_def)
next
  case False
  have up: "CONFIDENCE_THRESHOLD cfg' \<le> fused_confidence votes \<and>
            AGREEMENT_THRESHOLD cfg' \<le> fused_agreement votes \<Longrightarrow>
            CONFIDENCE_THRESHOLD cfg \<le> fused_confidence votes \<and>
            AGREEMENT_THRESHOLD cfg \<le> fused_agreement votes"
    using assms by linarith
  from False up show ?thesis
    by (auto simp: fuse_def Let_def split: if_splits)
qed

theorem fuse_threshold_monotone_witness:
  "CONFIDENCE_THRESHOLD (base_config\<lparr>CONFIDENCE_THRESHOLD := 70\<rparr>)
     \<le> CONFIDENCE_THRESHOLD (base_config\<lparr>CONFIDENCE_THRESHOLD := 71\<rparr>)
   \<and> AGREEMENT_THRESHOLD (base_config\<lparr>CONFIDENCE_THRESHOLD := 70\<rparr>)
     \<le> AGREEMENT_THRESHOLD (base_config\<lparr>CONFIDENCE_THRESHOLD := 71\<rparr>)
   \<and> fuse (base_config\<lparr>CONFIDENCE_THRESHOLD := 71\<rparr>) three_votes =
       Inr \<lparr>is_authentic = True, confidence = 215 / 3, ensemble_decision = Legitimate,
            model_agreement = 200 / 3, final_decision = AUTHENTICATED\<rparr>
   \<and> fuse (base_config\<lparr>CONFIDENCE_THRESHOLD := 70\<rparr>) three_votes =
       Inr \<lparr>is_authentic = True, confidence = 215 / 3, ensemble_decision = Legitimate,
            model_agreement = 200 / 3, final_decision = AUTHENTICATED\<rparr>
   \<and> CONFIDENCE_THRESHOLD base_config
     \<le> CONFIDENCE_THRESHOLD (base_config\<lparr>AGREEMENT_THRESHOLD := 80\<rparr>)
   \<and> AGREEMENT_THRESHOLD base_config
     \<le> AGREEMENT_THRESHOLD (base_config\<lparr>AGREEMENT_THRESHOLD := 80\<rparr>)
   \<and> fuse base_config three_votes =
       Inr \<lparr>is_authentic = False, confidence = 215 / 3, ensemble_decision = Legitimate,
            model_agreement = 200 / 3, final_decision = REJECTED\<rparr>
   \<and> fuse (base_config\<lparr>AGREEMENT_THRESHOLD := 80\<rparr>) three_votes =
       Inr \<lparr>is_authentic = False, confidence = 215 / 3, ensemble_decision = Legitimate,
            model_agreement = 200 / 3, final_decision = REJECTED\<rparr>"
proof -
  have c: "fused_confidence three_votes = 215 / 3"
    by (simp add: fused_confidence_def three_votes_def weight_of_def)
  have m: "majority_verdict three_votes"
    by (simp add: majority_verdict_def three_votes_def)
  have a: "fused_agreement three_votes = 200 / 3"
    by (simp add: fused_agreement_def m) (simp add: three_votes_def)
  have n: "three_votes \<noteq> []"
    by (simp add: three_votes_def)
  have h: "fuse (base_config\<lparr>CONFIDENCE_THRESHOLD := 71\<rparr>) three_votes =
       Inr \<lparr>is_authentic = True, confidence = 215 / 3, ensemble_decision = Legitimate,
            model_agreement = 200 / 3, final_decision = AUTHENTICATED\<rparr>"
    by (simp add: fuse_def c a m n base_config_def)
  have l: "fuse base_config three_votes =
       Inr \<lparr>is_authentic = False, confidence = 215 / 3, ensemble_decision = Legitimate,
            model_agreement = 200 / 3, final_decision = REJECTED\<rparr>"
    by (simp add: fuse_def c a m n base_config_def)
  have le1: "CONFIDENCE_THRESHOLD (base_config\<lparr>CONFIDENCE_THRESHOLD := 70\<rparr>)
     \<le> CONFIDENCE_THRESHOLD (base_config\<lparr>CONFIDENCE_THRESHOLD := 71\<rparr>)"
    by simp
  have le2: "AGREEMENT_THRESHOLD (base_config\<lparr>CONFIDENCE_THRESHOLD := 70\<rparr>)
     \<le> AGREEMENT_THRESHOLD (base_config\<lparr>CONFIDENCE_THRESHOLD := 71\<rparr>)"
    by simp
  have le3: "CONFIDENCE_THRESHOLD base_config
     \<le> CONFIDENCE_THRESHOLD (base_config\<lparr>AGREEMENT_THRESHOLD := 80\<rparr>)"
    by simp
  have le4: "AGREEMENT_THRESHOLD base_config
     \<le> AGREEMENT_THRESHOLD (base_config\<lparr>AGREEMENT_THRESHOLD := 80\<rparr>)"
    by (simp add: base_config_def)
  from fuse_threshold_monotone[OF le1 le2, of three_votes] h
  obtain r where r: "fuse (base_config\<lparr>CONFIDENCE_THRESHOLD := 70\<rparr>) three_votes = Inr r"
      "final_decision r = AUTHENTICATED" "confidence r = 215 / 3" "model_agreement r = 200 / 3"
    by auto
  from fuse_threshold_monotone[OF le3 le4, of three_votes] l
  obtain r' where r': "fuse (base_config\<lparr>AGREEMENT_THRESHOLD := 80\<rparr>) three_votes = Inr r'"
      "final_decision r' = REJECTED"
    by auto
  have lo: "fuse (base_config\<lparr>CONFIDENCE_THRESHOLD := 70\<rparr>) three_votes =
       Inr \<lparr>is_authentic = True, confidence = 215 / 3, ensemble_decision = Legitimate,
            model_agreement = 200 / 3, final_decision = AUTHENTICATED\<rparr>"
    using r n by (auto simp: fuse_def c a m Let_def split: if_splits)
  have hi: "fuse (base_config\<lparr>AGREEMENT_THRESHOLD := 80\<rparr>) three_votes =
       Inr \<lparr>is_authentic = False, confidence = 215 / 3, ensemble_decision = Legitimate,
            model_agreement = 200 / 3, final_decision = REJECTED\<rparr>"
    using r' n by (auto simp: fuse_def c a m Let_def split: if_splits)
  from le1 le2 le3 le4 h l lo hi show ?thesis by blast
qed

text \<open>
  C6. For a request whose \<open>keystrokes\<close> is a list of events: when no verifier is loaded
  and none can be loaded, a list of at least \<open>MIN_KEYSTROKES\<close> events whose features are
  extracted is answered with status 503 and the message that the verification system is
  not available. A 503 is given only to a list of at least \<open>MIN_KEYSTROKES\<close> events, a 400
  only to a shorter one, so no request is answered as both.
\<close>

theorem unavailable_verifier_is_503:
  assumes "map_of kvs ''keystrokes'' = Some (JList events)"
  shows "(\<not> verifier st \<longrightarrow> \<not> load_verifier w \<longrightarrow>
            MIN_KEYSTROKES cfg \<le> int (length events) \<longrightarrow>
            DataFrame w (JList events) = Inr df \<longrightarrow>
            extract_comprehensive_features w df = Inr features \<longrightarrow>
              fst (api_verify cfg w (Inr (JObj kvs)) st) =
                \<lparr>status = 503,
                 body = JObj [(''status'', JStr ''error''),
                              (''message'', JStr ''Verification system not available'')]\<rparr>)
       \<and> (status (fst (api_verify cfg w (Inr (JObj kvs)) st)) = 503 \<longrightarrow>
            \<not> verifier st \<and> \<not> load_verifier w \<and> MIN_KEYSTROKES cfg \<le> int (length events))
       \<and> (status (fst (api_verify cfg w (Inr (JObj kvs)) st)) = 400 \<longrightarrow>
            int (length events) < MIN_KEYSTROKES cfg)"
proof -
  have a: "\<not> verifier st \<Longrightarrow> \<not> load_verifier w \<Longrightarrow>
            MIN_KEYSTROKES cfg \<le> int (length events) \<Longrightarrow>
            DataFrame w (JList events) = Inr df \<Longrightarrow>
            extract_comprehensive_features w df = Inr features \<Longrightarrow>
              fst (api_verify cfg w (Inr (JObj kvs)) st) =
                \<lparr>status = 503,
                 body = JObj [(''status'', JStr ''error''),
                              (''message'', JStr ''Verification system not available'')]\<rparr>"
    using api_verify_events_extracted[OF assms, of cfg w df features st]
    by (simp add: error_response_def)
  have b: "status (fst (api_verify cfg w (Inr (JObj kvs)) st)) = 503 \<Longrightarrow>
            \<not> verifier st \<and> \<not> load_verifier w \<and> MIN_KEYSTROKES cfg \<le> int (length events)"
    using save_keeps_verifier[of cfg w "JList events" st]
    by (auto simp: api_verify_events[OF assms] error_response_def verification_failed_def
          get_verifier_def split: prod.splits sum.splits if_splits)
  have c: "status (fst (api_verify cfg w (Inr (JObj kvs)) st)) = 400 \<Longrightarrow>
            int (length events) < MIN_KEYSTROKES cfg"
    using api_verify_events_status[OF assms, of cfg w st] by simp
  from a b c show ?thesis by blast
qed

theorem unavailable_verifier_is_503_witness:
  "map_of [(''keystrokes'', JList three_event_list)] ''keystrokes'' = Some (JList three_event_list)
   \<and> \<not> verifier fresh \<and> \<not> load_verifier offline_world
   \<and> MIN_KEYSTROKES base_config \<le> int (length three_event_list)
   \<and> DataFrame offline_world (JList three_event_list) = Inr (JList three_event_list)
   \<and> extract_comprehensive_features offline_world (JList three_event_list) = Inr three_features
   \<and> fst (api_verify base_config offline_world
            (Inr (JObj [(''keystrokes'', JList three_event_list)])) fresh) =
       \<lparr>status = 503,
        body = JObj [(''status'', JStr ''error''),
                     (''message'', JStr ''Verification system not available'')]\<rparr>
   \<and> status (fst (api_verify base_config offline_world
            (Inr (JObj [(''keystrokes'', JList three_event_list)])) fresh)) \<noteq> 400"
  using unavailable_verifier_is_503
    [of "[(''keystrokes'', JList three_event_list)]" three_event_list fresh offline_world
        base_config "JList three_event_list" three_features]
  by (simp add: base_config_def offline_world_def ready_world_def fresh_def three_event_list_def)

text \<open>
  C7. A response of \<open>api_verify\<close> with status 200 has an \<open>authentication_result\<close> with the
  fields \<open>is_authentic\<close>, \<open>confidence\<close>, \<open>ensemble_decision\<close>, \<open>model_agreement\<close> and
  \<open>final_decision\<close>, and a \<open>typing_statistics\<close> with exactly the fields
  \<open>dwell_time_mean\<close>, \<open>dwell_time_std\<close>, \<open>flight_time_mean\<close>, \<open>flight_time_std\<close>,
  \<open>total_time\<close>, \<open>typing_speed\<close> and \<open>dwell_flight_ratio\<close>. Each of these holds the value
  of its feature as the extractor computed it for the keystrokes of the request, and 0
  for a feature that the extractor left out.
\<close>

theorem success_response_shape:
  assumes "rq = Inr data"
      and "py_getitem data ''keystrokes'' = Inr keystrokes"
      and "DataFrame w keystrokes = Inr df"
      and "extract_comprehensive_features w df = Inr features"
      and "status (fst (api_verify cfg w rq st)) = 200"
  shows "map_option obj_keys (authentication_result (fst (api_verify cfg w rq st))) =
           Some [''is_authentic'', ''confidence'', ''ensemble_decision'', ''model_agreement'',
                 ''final_decision'']
       \<and> typing_statistics (fst (api_verify cfg w rq st)) =
           Some (JObj (map (\<lambda>(name, key). (name, dict_get features key (JInt 0)))
                         statistic_names))
       \<and> map fst statistic_names =
           [''dwell_time_mean'', ''dwell_time_std'', ''flight_time_mean'', ''flight_time_std'',
            ''total_time'', ''typing_speed'', ''dwell_flight_ratio'']
       \<and> (\<forall>(name, key) \<in> set statistic_names. \<forall>v. features key = Some v \<longrightarrow>
            Option.bind (typing_statistics (fst (api_verify cfg w rq st))) (get_field name) = Some v)"
proof -
  have k: "map_option obj_keys (authentication_result (fst (api_verify cfg w rq st))) =
           Some [''is_authentic'', ''confidence'', ''ensemble_decision'', ''model_agreement'',
                 ''final_decision'']"
    by (simp add: api_verify_200_decision[OF assms(5)])
  have t: "typing_statistics (fst (api_verify cfg w rq st)) =
           Some (JObj (map (\<lambda>(name, key). (name, dict_get features key (JInt 0)))
                         statistic_names))"
    using assms
    by (auto simp: api_verify_def error_response_def verification_failed_def
          typing_statistics_def result_block_def verification_result_def statistic_names_def
          split: sum.splits if_splits prod.splits)
  have n: "map fst statistic_names =
           [''dwell_time_mean'', ''dwell_time_std'', ''flight_time_mean'', ''flight_time_std'',
            ''total_time'', ''typing_speed'', ''dwell_flight_ratio'']"
    by (simp add: statistic_names_def)
  have f: "\<forall>(name, key) \<in> set statistic_names. \<forall>v. features key = Some v \<longrightarrow>
            Option.bind (typing_statistics (fst (api_verify cfg w rq st))) (get_field name) = Some v"
    unfolding t by (simp add: statistic_names_def dict_get_def)
  from k t n f show ?thesis by blast
qed

theorem success_response_shape_witness:
  "py_getitem (JObj [(''keystrokes'', three_events)]) ''keystrokes'' = Inr three_events
   \<and> DataFrame ready_world three_events = Inr three_events
   \<and> extract_comprehensive_features ready_world three_events = Inr three_features
   \<and> status (fst (api_verify base_config ready_world (post three_events) fresh)) = 200
   \<and> typing_statistics (fst (api_verify base_config ready_world (post three_events) fresh)) =
       Some (JObj [(''dwell_time_mean'', JFloat 70), (''dwell_time_std'', JFloat 10),
                   (''flight_time_mean'', JFloat 80), (''flight_time_std'', JInt 0),
                   (''total_time'', JInt 360), (''typing_speed'', JInt 0),
                   (''dwell_flight_ratio'', JFloat (7 / 8))])"
proof -
  have a: "post three_events = Inr (JObj [(''keystrokes'', three_events)])"
    by (simp add: post_def)
  have b: "py_getitem (JObj [(''keystrokes'', three_events)]) ''keystrokes'' = Inr three_events"
    by simp
  have c: "DataFrame ready_world three_events = Inr three_events"
    by (simp add: ready_world_def)
  have d: "extract_comprehensive_features ready_world three_events = Inr three_features"
    by (simp add: ready_world_def)
  have e: "status (fst (api_verify base_config ready_world (post three_events) fresh)) = 200"
    by code_simp
  from success_response_shape[OF a b c d e] b c d e show ?thesis
    by (simp add: statistic_names_def dict_get_def three_features_def)
qed

text \<open>
  C8. The claim: the file-based and the realtime entry point give the same result for
  the same events. One key event, fewer than the \<open>MIN_KEYSTROKES\<close> of 3, is answered with
  400 by \<open>api_verify\<close>, and never with 400 by \<open>api_analyze\<close>, whatever
  \<open>verify_keystroke_file\<close> does. Three key events that the verifier rejects are REJECTED
  in the result of \<open>api_analyze\<close> and AUTHENTICATED in the result of \<open>api_verify\<close>.
\<close>

theorem analyze_and_verify_diverge:
  "status (fst (api_verify base_config ready_world (post one_event) fresh)) = 400
   \<and> (\<forall>f. status (fst (api_analyze (ready_world\<lparr>verify_keystroke_file := f\<rparr>)
                         (Some (''typing.csv'', one_event)) fresh)) \<noteq> 400)
   \<and> Option.bind (Option.bind
         (get_field ''result''
            (body (fst (api_analyze rejecting_world (Some (''typing.csv'', three_events)) fresh))))
         (get_field ''authentication_result'')) (get_field ''final_decision'') =
       Some (JStr ''REJECTED'')
   \<and> decision_field ''final_decision''
         (fst (api_verify base_config rejecting_world (post three_events) fresh)) =
       Some (JStr ''AUTHENTICATED'')"
proof -
  have a: "status (fst (api_verify base_config ready_world (post one_event) fresh)) = 400"
    by code_simp
  have b: "status (fst (api_analyze (ready_world\<lparr>verify_keystroke_file := f\<rparr>)
                         (Some (''typing.csv'', one_event)) fresh)) \<noteq> 400" for f
    by (simp add: api_analyze_def ready_world_def fresh_def get_verifier_def suffix_to_prefix
          error_response_def analysis_failed_def split: sum.splits)
  have c: "Option.bind (Option.bind
         (get_field ''result''
            (body (fst (api_analyze rejecting_world (Some (''typing.csv'', three_events)) fresh))))
         (get_field ''authentication_result'')) (get_field ''final_decision'') =
       Some (JStr ''REJECTED'')"
    by code_simp
  have d: "decision_field ''final_decision''
         (fst (api_verify base_config rejecting_world (post three_events) fresh)) =
       Some (JStr ''AUTHENTICATED'')"
    by code_simp
  from a b c d show ?thesis by blast
qed




text \<open>
  C10, as claimed, fails: in a directory whose only file is \<open>sample-1.csv\<close>, the next
  sample number is 0, which is not positive.
\<close>

theorem negative_sample_gives_zero:
  "get_next_sample_number (Present [''sample-1.csv'']) = (Inr 0, Present [''sample-1.csv''])"
  by code_simp

text \<open>
  C10, amended. In a data directory that can be listed, \<open>get_next_sample_number\<close> raises
  nothing and leaves the directory as it is. It takes the listed names that start with
  \<open>sample\<close> and end with \<open>.csv\<close>, deletes every \<open>sample\<close> and then every \<open>.csv\<close> from
  each, and keeps the integers that \<open>int\<close> reads from what is left; a name from which
  \<open>int\<close> reads nothing is skipped. It returns 1 when no integer is kept and one more than
  the largest otherwise. A directory that does not exist is created and gives 1. The
  result is positive when none of the integers kept is negative.
\<close>

theorem next_sample_number_is_max_plus_one:
  "get_next_sample_number (Present listing) =
     (Inr (if sample_numbers listing = [] then 1 else Max (set (sample_numbers listing)) + 1),
      Present listing)
   \<and> get_next_sample_number Absent = (Inr 1, Present [])
   \<and> ((\<forall>n \<in> set (sample_numbers listing). 0 \<le> n) \<longrightarrow>
        (\<exists>k. fst (get_next_sample_number (Present listing)) = Inr k \<and> 0 < k))"
proof -
  have a: "get_next_sample_number (Present listing) =
     (Inr (if sample_numbers listing = [] then 1 else Max (set (sample_numbers listing)) + 1),
      Present listing)"
    by (simp add: next_number_eq)
  have b: "get_next_sample_number Absent = (Inr 1, Present [])"
    by (simp add: next_number_def existing_files_def)
  have c: "\<exists>k. fst (get_next_sample_number (Present listing)) = Inr k \<and> 0 < k"
    if nn: "\<forall>n \<in> set (sample_numbers listing). 0 \<le> n"
  proof (cases "sample_numbers listing = []")
    case True
    then show ?thesis by (simp add: next_number_eq)
  next
    case False
    then have "Max (set (sample_numbers listing)) \<in> set (sample_numbers listing)"
      by (intro Max_in) simp_all
    with nn have "0 \<le> Max (set (sample_numbers listing))" by blast
    with False show ?thesis by (simp add: next_number_eq)
  qed
  from a b c show ?thesis by blast
qed

theorem next_sample_number_is_max_plus_one_witness:
  "sample_numbers [''sample1.csv'', ''notes.txt'', ''sample12.csv'', ''samplex.csv'', ''sample.csv'']
     = [1, 12]
   \<and> (0::int) \<le> 1 \<and> (0::int) \<le> 12
   \<and> get_next_sample_number
        (Present [''sample1.csv'', ''notes.txt'', ''sample12.csv'', ''samplex.csv'', ''sample.csv''])
      = (Inr 13,
         Present [''sample1.csv'', ''notes.txt'', ''sample12.csv'', ''samplex.csv'', ''sample.csv''])"
proof -
  have a: "sample_numbers
      [''sample1.csv'', ''notes.txt'', ''sample12.csv'', ''samplex.csv'', ''sample.csv''] = [1, 12]"
    by code_simp
  from next_sample_number_is_max_plus_one
         [of "[''sample1.csv'', ''notes.txt'', ''sample12.csv'', ''samplex.csv'', ''sample.csv'']"] a
  show ?thesis by simp
qed

end
